theory Spec2Isabelle
  imports Main "HOL-Library.List_Lexorder" "HOL-Library.Char_ord"
begin

section \<open>Values shared by all tables\<close>

text \<open>
  The values of the columns of \<^verbatim>\<open>database/schema.sql\<close>: a TEXT value is a string and
  a UUID value is held as its text, the form in which the driver sends and receives
  it; a nullable column is an option, a DATE is a day number (in PostgreSQL
  \<^verbatim>\<open>date - date\<close> is an integer and \<^verbatim>\<open>date + integer\<close> is a date) and a
  TIMESTAMPTZ is a point on an integer time line. Which comparisons PostgreSQL allows
  between the two types is a matter of the statement, not of the values; it is modelled
  with the lookups below.
\<close>

type_synonym uuid = string
type_synonym date = int
type_synonym timestamp = int


text \<open>
  What a route handler sends back when it does not answer 200/201:
  \<^verbatim>\<open>res.status(code).json({ error: message })\<close>, or an exception thrown by a
  rejected query, which \<^verbatim>\<open>asyncHandler\<close> passes on to the error handler.
\<close>

datatype error = Status nat string | Thrown

abbreviation ValidationError :: "string \<Rightarrow> error" where
  "ValidationError msg \<equiv> Status 400 msg"



text \<open>
  The HTTP status \<^verbatim>\<open>errorHandler\<close> (middleware/errorHandler.js) answers a thrown
  database error with, by its SQLSTATE \<^verbatim>\<open>err.code\<close>: 409 for a unique violation, 400
  for a foreign-key or a check violation, and 500 for any other, since an error of the
  database driver carries no \<^verbatim>\<open>status\<close>.
\<close>

definition errorHandler :: "string \<Rightarrow> nat" where
  "errorHandler code =
     (if code = ''23505'' then 409
      else if code = ''23503'' then 400
      else if code = ''23514'' then 400
      else 500)"

text \<open>
  What a request takes from its surroundings: the clock of the database session, the
  date of the server's own clock (\<^verbatim>\<open>new Date().toISOString().slice(0,10)\<close>), the
  identifiers \<^verbatim>\<open>uuid_generate_v4()\<close> hands to the rows the request inserts (the
  \<open>k\<close>-th inserted row takes the \<open>k\<close>-th), and which of the calls the handler
  awaits are rejected, for whatever reason the tables held here do not show (a lost
  connection, a reference to a row of a table that is not held here, a statement the
  database cannot type). A rejected call throws; the calls of a handler are numbered
  in the order of its source text, from 0.
\<close>

record env =
  CURRENT_DATE :: date
  NOW :: timestamp
  js_today :: date
  uuid_generate_v4 :: "nat \<Rightarrow> uuid"
  rejects :: "nat \<Rightarrow> bool"

section \<open>The tables of the transfer workflow\<close>

text \<open>Table \<^verbatim>\<open>users\<close>; the routes below read \<^verbatim>\<open>id\<close> and \<^verbatim>\<open>role\<close>.\<close>

record user =
  u_id :: uuid
  u_full_name :: string
  u_email :: string
  u_role :: string
  u_status :: string

text \<open>Table \<^verbatim>\<open>assets\<close> (alias \<^verbatim>\<open>a\<close>), one field per column.\<close>

record asset =
  a_id :: uuid
  a_asset_id :: string
  a_name :: string
  a_category :: string
  a_company_id :: "uuid option"
  a_rig_id :: "uuid option"
  a_contract_id :: "uuid option"
  a_location :: "string option"
  a_status :: string
  a_value_usd :: int
  a_acquisition_date :: "date option"
  a_year_manufactured :: "int option"
  a_serial_number :: "string option"
  a_manufacturer :: "string option"
  a_model :: "string option"
  a_weight_kg :: "int option"
  a_dimensions :: "string option"
  a_notes :: "string option"
  a_created_by :: "uuid option"
  a_created_at :: timestamp
  a_updated_at :: timestamp

text \<open>Table \<^verbatim>\<open>asset_history\<close> (alias \<^verbatim>\<open>h\<close>).\<close>

record asset_history_row =
  h_id :: uuid
  h_asset_id :: uuid
  h_action :: string
  h_changed_by :: "uuid option"
  h_old_values :: "string option"
  h_new_values :: "string option"
  h_notes :: "string option"
  h_created_at :: timestamp

text \<open>Table \<^verbatim>\<open>transfers\<close> (alias \<^verbatim>\<open>t\<close>), one field per column.\<close>

record transfer =
  t_id :: uuid
  t_transfer_id :: string
  t_asset_id :: uuid
  t_current_location :: string
  t_destination :: string
  t_dest_rig_id :: "uuid option"
  t_dest_company_id :: "uuid option"
  t_priority :: string
  t_transfer_type :: string
  t_reason :: string
  t_instructions :: "string option"
  t_requested_by :: "uuid option"
  t_request_date :: date
  t_required_date :: "date option"
  t_status :: string
  t_ops_approved_by :: "uuid option"
  t_ops_action :: "string option"
  t_ops_date :: "date option"
  t_ops_comment :: "string option"
  t_mgr_approved_by :: "uuid option"
  t_mgr_action :: "string option"
  t_mgr_date :: "date option"
  t_mgr_comment :: "string option"
  t_created_at :: timestamp
  t_updated_at :: timestamp

text \<open>Table \<^verbatim>\<open>notifications\<close>; a row without \<^verbatim>\<open>user_id\<close> is a broadcast.\<close>

record notification =
  n_id :: uuid
  n_user_id :: "uuid option"
  n_type :: string
  n_icon :: string
  n_title :: string
  n_description :: "string option"
  n_entity_type :: "string option"
  n_entity_id :: "uuid option"
  n_is_read :: bool
  n_created_at :: timestamp

section \<open>Maintenance schedules\<close>

text \<open>Table \<^verbatim>\<open>maintenance_schedules\<close> (alias \<^verbatim>\<open>ms\<close>), one field per column.\<close>

record maintenance_schedule =
  ms_id :: uuid
  ms_pm_id :: string
  ms_asset_id :: uuid
  ms_task_name :: string
  ms_task_type :: string
  ms_priority :: string
  ms_frequency_days :: int
  ms_last_done_date :: "date option"
  ms_next_due_date :: date
  ms_alert_days :: int
  ms_technician :: "string option"
  ms_estimated_hours :: "int option"
  ms_estimated_cost :: "int option"
  ms_work_order_no :: "string option"
  ms_status :: string
  ms_notes :: "string option"
  ms_created_by :: "uuid option"
  ms_created_at :: timestamp
  ms_updated_at :: timestamp

text \<open>Table \<^verbatim>\<open>maintenance_logs\<close> (alias \<^verbatim>\<open>ml\<close>).\<close>

record maintenance_log =
  ml_id :: uuid
  ml_schedule_id :: uuid
  ml_completion_date :: date
  ml_completed_by :: string
  ml_completed_by_user_id :: "uuid option"
  ml_actual_hours :: "int option"
  ml_actual_cost :: "int option"
  ml_parts_used :: "string option"
  ml_work_notes :: "string option"
  ml_next_due_date :: "date option"
  ml_created_at :: timestamp

subsection \<open>The derived columns of the reads\<close>

text \<open>
  \<^verbatim>\<open>(ms.next_due_date - CURRENT_DATE) AS days_until_due\<close>, the same expression in
  \<^verbatim>\<open>GET /api/maintenance\<close>, \<^verbatim>\<open>GET /api/maintenance/:id\<close> and the view.
\<close>

definition days_until_due :: "maintenance_schedule \<Rightarrow> date \<Rightarrow> int" where
  "days_until_due ms today = ms_next_due_date ms - today"

text \<open>
  The \<^verbatim>\<open>CASE ... END AS live_status\<close> of \<^verbatim>\<open>GET /api/maintenance\<close>
  (routes/maintenance.js, lines 64 to 69).
\<close>

definition live_status :: "maintenance_schedule \<Rightarrow> date \<Rightarrow> string" where
  "live_status ms today =
     (if ms_status ms = ''Completed'' \<or> ms_status ms = ''Cancelled'' then ms_status ms
      else if ms_next_due_date ms < today then ''Overdue''
      else if ms_next_due_date ms \<le> today + ms_alert_days ms then ''Due Soon''
      else ''Scheduled'')"

text \<open>
  The \<^verbatim>\<open>CASE ... END AS live_status\<close> of the view \<^verbatim>\<open>v_maintenance\<close>
  (database/schema.sql), whose first branch also lists \<^verbatim>\<open>'In Progress'\<close>.
\<close>

definition v_maintenance_live_status :: "maintenance_schedule \<Rightarrow> date \<Rightarrow> string" where
  "v_maintenance_live_status ms today =
     (if ms_status ms = ''Completed'' \<or> ms_status ms = ''Cancelled''
         \<or> ms_status ms = ''In Progress'' then ms_status ms
      else if ms_next_due_date ms < today then ''Overdue''
      else if ms_next_due_date ms \<le> today + ms_alert_days ms then ''Due Soon''
      else ''Scheduled'')"

text \<open>
  The specification's \<^verbatim>\<open>deriveLiveStatus\<close>, written from its four numbered rules,
  to compare the two reads with.
\<close>

datatype LiveStatus = Stored string | Overdue | DueSoon | Scheduled

fun label :: "LiveStatus \<Rightarrow> string" where
  "label (Stored s) = s"
| "label Overdue = ''Overdue''"
| "label DueSoon = ''Due Soon''"
| "label Scheduled = ''Scheduled''"

definition deriveLiveStatus :: "maintenance_schedule \<Rightarrow> date \<Rightarrow> LiveStatus \<times> int" where
  "deriveLiveStatus schedule today =
     ((if ms_status schedule \<in> {''Completed'', ''Cancelled'', ''In Progress''}
         then Stored (ms_status schedule)
       else if ms_next_due_date schedule < today then Overdue
       else if ms_next_due_date schedule \<le> today + ms_alert_days schedule then DueSoon
       else Scheduled),
      ms_next_due_date schedule - today)"

text \<open>A schedule row with the given stored status, due date and alert window.\<close>

definition schedule_row :: "uuid \<Rightarrow> string \<Rightarrow> date \<Rightarrow> int \<Rightarrow> maintenance_schedule" where
  "schedule_row i st due alert =
     \<lparr> ms_id = i, ms_pm_id = ''PM-'' @ i, ms_asset_id = ''a1'',
       ms_task_name = ''Oil Change'', ms_task_type = ''Oil Change'',
       ms_priority = ''Normal'', ms_frequency_days = 30, ms_last_done_date = None,
       ms_next_due_date = due, ms_alert_days = alert, ms_technician = None,
       ms_estimated_hours = None, ms_estimated_cost = None, ms_work_order_no = None,
       ms_status = st, ms_notes = None, ms_created_by = None,
       ms_created_at = 0, ms_updated_at = 0 \<rparr>"

section \<open>The database and the transfer routes\<close>

record db =
  users :: "user list"
  assets :: "asset list"
  asset_history :: "asset_history_row list"
  maintenance_schedules :: "maintenance_schedule list"
  maintenance_logs :: "maintenance_log list"
  transfers :: "transfer list"
  notifications :: "notification list"


text \<open>
  JavaScript's \<^verbatim>\<open>String.prototype.trim\<close> removes the white space and the line
  terminators of ECMAScript from both ends of a string. A string is held here as the
  bytes of its UTF-8 text, so these are the characters to remove, each as its bytes:
  U+0009 to U+000D, U+0020, U+00A0, U+1680, U+2000 to U+200A, U+2028, U+2029, U+202F,
  U+205F, U+3000 and U+FEFF.
\<close>

definition white_space :: "string list" where
  "white_space =
     [[CHR 0x09], [CHR 0x0A], [CHR 0x0B], [CHR 0x0C], [CHR 0x0D], [CHR 0x20],
      [CHR 0xC2, CHR 0xA0], [CHR 0xE1, CHR 0x9A, CHR 0x80],
      [CHR 0xE2, CHR 0x80, CHR 0x80], [CHR 0xE2, CHR 0x80, CHR 0x81],
      [CHR 0xE2, CHR 0x80, CHR 0x82], [CHR 0xE2, CHR 0x80, CHR 0x83],
      [CHR 0xE2, CHR 0x80, CHR 0x84], [CHR 0xE2, CHR 0x80, CHR 0x85],
      [CHR 0xE2, CHR 0x80, CHR 0x86], [CHR 0xE2, CHR 0x80, CHR 0x87],
      [CHR 0xE2, CHR 0x80, CHR 0x88], [CHR 0xE2, CHR 0x80, CHR 0x89],
      [CHR 0xE2, CHR 0x80, CHR 0x8A], [CHR 0xE2, CHR 0x80, CHR 0xA8],
      [CHR 0xE2, CHR 0x80, CHR 0xA9], [CHR 0xE2, CHR 0x80, CHR 0xAF],
      [CHR 0xE2, CHR 0x81, CHR 0x9F], [CHR 0xE3, CHR 0x80, CHR 0x80],
      [CHR 0xEF, CHR 0xBB, CHR 0xBF]]"

text \<open>
  \<open>strip ws s\<close> removes from the front of \<open>s\<close> every leading occurrence of one of
  the byte sequences \<open>ws\<close>; \<open>trim\<close> does so at the front and, on the reversed text
  with the reversed sequences, at the back.
\<close>

function strip :: "string list \<Rightarrow> string \<Rightarrow> string" where
  "strip ws s =
     (case find (\<lambda>w. w \<noteq> [] \<and> take (length w) s = w) ws of
        None \<Rightarrow> s
      | Some w \<Rightarrow> strip ws (drop (length w) s))"
  by pat_completeness auto

termination
proof (relation "measure (\<lambda>(ws, s). length s)")
  show "wf (measure (\<lambda>(ws, s). length s))" by simp
next
  fix ws :: "string list" and s w :: string
  assume "find (\<lambda>w. w \<noteq> [] \<and> take (length w) s = w) ws = Some w"
  then have "w \<noteq> []" and "take (length w) s = w"
    by (auto simp: find_Some_iff)
  then have "s \<noteq> []" by auto
  with \<open>w \<noteq> []\<close> show "((ws, drop (length w) s), (ws, s)) \<in> measure (\<lambda>(ws, s). length s)"
    by simp
qed

declare strip.simps [simp del]

definition trim :: "string \<Rightarrow> string" where
  "trim s = rev (strip (map rev white_space) (rev (strip white_space s)))"

text \<open>
  The test \<^verbatim>\<open>!comment?.trim()\<close>: true for a missing comment and for one that is
  blank.
\<close>

definition no_comment :: "string option \<Rightarrow> bool" where
  "no_comment comment = (case comment of None \<Rightarrow> True | Some c \<Rightarrow> trim c = [])"

text \<open>The en dash of the notification texts, as its three UTF-8 bytes.\<close>

definition en_dash :: string where
  "en_dash = [CHR 0xE2, CHR 0x80, CHR 0x93]"

text \<open>\<^verbatim>\<open>COALESCE($n, column)\<close>: the parameter when it is not NULL, else the column.\<close>

definition COALESCE :: "'a option \<Rightarrow> 'a option \<Rightarrow> 'a option" where
  "COALESCE x y = (case x of Some v \<Rightarrow> Some v | None \<Rightarrow> y)"

text \<open>\<^verbatim>\<open>rows[0]\<close> of a query result: \<^verbatim>\<open>undefined\<close> when there is no row.\<close>

definition first_row :: "'a list \<Rightarrow> 'a option" where
  "first_row rows = (case rows of [] \<Rightarrow> None | r # _ \<Rightarrow> Some r)"


text \<open>
  The id-or-code lookups. \<^verbatim>\<open>database/schema.sql\<close> declares every \<^verbatim>\<open>id\<close> column UUID
  and every code column (\<^verbatim>\<open>transfer_id\<close>, \<^verbatim>\<open>pm_id\<close>, and \<^verbatim>\<open>asset_id\<close> of the
  assets) TEXT. PostgreSQL gives the
  parameter \<^verbatim>\<open>$1\<close> of a statement the type of the first column it is compared with,
  and it has no operator that compares a \<^verbatim>\<open>text\<close> with a \<^verbatim>\<open>uuid\<close>. So a statement
  that compares one parameter with columns of both types is rejected when it is parsed
  (SQLSTATE 42883, \<^verbatim>\<open>operator does not exist\<close>), whatever the value of the parameter
  and whatever the table holds.
\<close>

datatype pg_type = UUID | TEXT

definition parameter_typed :: "pg_type list \<Rightarrow> bool" where
  "parameter_typed columns =
     (case columns of [] \<Rightarrow> True | ty # rest \<Rightarrow> list_all (\<lambda>ty'. ty' = ty) rest)"

text \<open>
  The columns the parameter of \<^verbatim>\<open>WHERE id = $1 OR transfer_id = $1\<close> (and of the same
  clause on \<^verbatim>\<open>pm_id\<close> and on \<^verbatim>\<open>asset_id\<close>) is compared with.
\<close>

definition id_or_code :: "pg_type list" where
  "id_or_code = [UUID, TEXT]"

text \<open>
  The environment of a request whose call 0 is a statement with one parameter that is
  compared with columns of the given types: where the parameter cannot be typed,
  call 0 is rejected, in addition to the calls that are rejected anyway.
\<close>

definition prepared :: "pg_type list \<Rightarrow> env \<Rightarrow> env" where
  "prepared columns e =
     (if parameter_typed columns then e
      else e\<lparr> rejects := (\<lambda>k. k = 0 \<or> rejects e k) \<rparr>)"

text \<open>
  The rows \<^verbatim>\<open>SELECT * FROM transfers WHERE id = $1 OR transfer_id = $1\<close> asks for. A
  handler gets them only where its call 0 is not rejected; the routes on the schema
  are at the end of this part.
\<close>

definition select_transfer :: "string \<Rightarrow> db \<Rightarrow> transfer list" where
  "select_transfer ref d = filter (\<lambda>t. t_id t = ref \<or> t_transfer_id t = ref) (transfers d)"

text \<open>
  \<^verbatim>\<open>INSERT INTO notifications (user_id, type, icon, title, description, entity_type,
  entity_id) SELECT id, ... FROM users WHERE role IN (...)\<close>: one row for each user
  holding one of the roles; \<open>k0\<close> counts the rows the request inserted before.
\<close>

definition notify_roles ::
  "env \<Rightarrow> nat \<Rightarrow> string list \<Rightarrow> string \<Rightarrow> string \<Rightarrow> string \<Rightarrow> uuid \<Rightarrow> db \<Rightarrow> notification list" where
  "notify_roles e k0 roles icon title description entity d =
     map (\<lambda>(k, u). \<lparr> n_id = uuid_generate_v4 e k, n_user_id = Some (u_id u),
                      n_type = ''info'', n_icon = icon, n_title = title,
                      n_description = Some description, n_entity_type = Some ''transfer'',
                      n_entity_id = Some entity, n_is_read = False, n_created_at = NOW e \<rparr>)
         (enumerate k0 (filter (\<lambda>u. u_role u \<in> set roles) (users d)))"


text \<open>\<^verbatim>\<open>x || null\<close> and \<^verbatim>\<open>x || y\<close> on a string: the empty string is falsy.\<close>

definition or_null :: "string option \<Rightarrow> string option" where
  "or_null v = (case v of None \<Rightarrow> None | Some s \<Rightarrow> if s = [] then None else Some s)"


subsection \<open>POST /api/transfers\<close>












subsection \<open>POST /api/transfers/:id/approve-ops\<close>

text \<open>
  The handler up to its status test: the two checks of the request body (400), the
  lookup (call 0; 404 when it finds nothing) and the test of \<^verbatim>\<open>tr[0].status\<close>
  (409). It writes nothing and hands on the row found, the action and the comment.
\<close>

definition approveOps_check ::
  "env \<Rightarrow> string \<Rightarrow> string option \<Rightarrow> string option \<Rightarrow> db \<Rightarrow> error + (transfer \<times> string \<times> string)" where
  "approveOps_check e ref action comment d =
     (case action of
        None \<Rightarrow> Inl (Status 400 ''action must be approve, reject, or hold'')
      | Some act \<Rightarrow>
          if act \<notin> set [''approve'', ''reject'', ''hold'']
          then Inl (Status 400 ''action must be approve, reject, or hold'')
          else if no_comment comment then Inl (Status 400 ''Decision comment is required'')
          else if rejects e 0 then Inl Thrown
          else (case select_transfer ref d of
                  [] \<Rightarrow> Inl (Status 404 ''Transfer not found'')
                | tr0 # _ \<Rightarrow>
                    if t_status tr0 \<noteq> ''Pending''
                    then Inl (Status 409 (''Transfer is already '' @ t_status tr0))
                    else Inr (tr0, act, case comment of Some c \<Rightarrow> c | None \<Rightarrow> [])))"

definition ops_newStatus :: "string \<Rightarrow> string" where
  "ops_newStatus action =
     (if action = ''approve'' then ''Ops Approved''
      else if action = ''reject'' then ''Rejected'' else ''On Hold'')"

text \<open>
  \<^verbatim>\<open>UPDATE transfers SET ops_approved_by = $1, ops_action = $2, ops_date = CURRENT_DATE,
  ops_comment = $3, status = $4 WHERE id = $5\<close>, with the trigger
  \<^verbatim>\<open>trg_set_updated_transfers\<close>, which sets \<^verbatim>\<open>updated_at\<close> of each updated row.
\<close>

definition update_transfers_ops ::
  "env \<Rightarrow> uuid \<Rightarrow> string \<Rightarrow> string \<Rightarrow> string \<Rightarrow> uuid \<Rightarrow> transfer list \<Rightarrow> transfer list" where
  "update_transfers_ops e p1 p2 p3 p4 p5 =
     map (\<lambda>t. if t_id t = p5
              then t\<lparr> t_ops_approved_by := Some p1, t_ops_action := Some p2,
                      t_ops_date := Some (CURRENT_DATE e), t_ops_comment := Some p3,
                      t_status := p4, t_updated_at := NOW e \<rparr>
              else t)"

text \<open>
  The rest of the handler: the update (call 1), on \<^verbatim>\<open>approve\<close> the notifications for
  the asset managers (call 2), and the answer \<^verbatim>\<open>rows[0]\<close>. Each query commits by
  itself, so what an earlier query wrote stays when a later one is rejected.
\<close>

definition approveOps_write ::
  "env \<Rightarrow> user \<Rightarrow> transfer \<times> string \<times> string \<Rightarrow> db \<Rightarrow> (error + transfer option) \<times> db" where
  "approveOps_write e req_user checked d =
     (case checked of (tr0, action, comment) \<Rightarrow>
        if rejects e 1 then (Inl Thrown, d)
        else
          let d1 = d\<lparr> transfers := update_transfers_ops e (u_id req_user) action comment
                                       (ops_newStatus action) (t_id tr0) (transfers d) \<rparr>;
              rows = filter (\<lambda>t. t_id t = t_id tr0) (transfers d1)
          in if action = ''approve''
             then if rejects e 2 then (Inl Thrown, d1)
                  else (Inr (first_row rows),
                        d1\<lparr> notifications := notifications d1 @
                              notify_roles e 0 [''Admin'', ''Asset Manager''] ''user-tie''
                                ''Transfer Awaiting Final Approval''
                                (''Transfer '' @ t_transfer_id tr0 @ '' approved by Ops Manager ''
                                   @ en_dash @ '' needs your final decision'')
                                (t_id tr0) d1 \<rparr>)
             else (Inr (first_row rows), d1))"

definition approveOps ::
  "env \<Rightarrow> user \<Rightarrow> string \<Rightarrow> string option \<Rightarrow> string option \<Rightarrow> db \<Rightarrow> (error + transfer option) \<times> db" where
  "approveOps e req_user ref action comment d =
     (case approveOps_check e ref action comment d of
        Inl err \<Rightarrow> (Inl err, d)
      | Inr checked \<Rightarrow> approveOps_write e req_user checked d)"

subsection \<open>POST /api/transfers/:id/approve-mgr\<close>

text \<open>
  The handler up to its status test, as for stage 1, with the status \<^verbatim>\<open>Ops Approved\<close>
  required and its own 409 message.
\<close>

definition approveMgr_check ::
  "env \<Rightarrow> string \<Rightarrow> string option \<Rightarrow> string option \<Rightarrow> db \<Rightarrow> error + (transfer \<times> string \<times> string)" where
  "approveMgr_check e ref action comment d =
     (case action of
        None \<Rightarrow> Inl (Status 400 ''action must be approve, reject, or hold'')
      | Some act \<Rightarrow>
          if act \<notin> set [''approve'', ''reject'', ''hold'']
          then Inl (Status 400 ''action must be approve, reject, or hold'')
          else if no_comment comment then Inl (Status 400 ''Decision comment is required'')
          else if rejects e 0 then Inl Thrown
          else (case select_transfer ref d of
                  [] \<Rightarrow> Inl (Status 404 ''Transfer not found'')
                | tr0 # _ \<Rightarrow>
                    if t_status tr0 \<noteq> ''Ops Approved''
                    then Inl (Status 409 (''Transfer must be Ops Approved first (currently: ''
                                           @ t_status tr0 @ '')''))
                    else Inr (tr0, act, case comment of Some c \<Rightarrow> c | None \<Rightarrow> [])))"

definition mgr_newStatus :: "string \<Rightarrow> string" where
  "mgr_newStatus action =
     (if action = ''approve'' then ''Completed''
      else if action = ''reject'' then ''Rejected'' else ''On Hold'')"

text \<open>
  \<^verbatim>\<open>UPDATE transfers SET mgr_approved_by = $1, mgr_action = $2, mgr_date = CURRENT_DATE,
  mgr_comment = $3, status = $4 WHERE id = $5\<close>, with the \<^verbatim>\<open>updated_at\<close> trigger.
\<close>

definition update_transfers_mgr ::
  "env \<Rightarrow> uuid \<Rightarrow> string \<Rightarrow> string \<Rightarrow> string \<Rightarrow> uuid \<Rightarrow> transfer list \<Rightarrow> transfer list" where
  "update_transfers_mgr e p1 p2 p3 p4 p5 =
     map (\<lambda>t. if t_id t = p5
              then t\<lparr> t_mgr_approved_by := Some p1, t_mgr_action := Some p2,
                      t_mgr_date := Some (CURRENT_DATE e), t_mgr_comment := Some p3,
                      t_status := p4, t_updated_at := NOW e \<rparr>
              else t)"

text \<open>
  \<^verbatim>\<open>UPDATE assets SET location = $1, rig_id = COALESCE($2, rig_id),
  company_id = COALESCE($3, company_id) WHERE id = $4\<close>: first what the statement
  makes of one row, with the trigger \<^verbatim>\<open>trg_set_updated_assets\<close>, then the table.
\<close>

definition relocate :: "env \<Rightarrow> string \<Rightarrow> uuid option \<Rightarrow> uuid option \<Rightarrow> asset \<Rightarrow> asset" where
  "relocate e p1 p2 p3 a =
     a\<lparr> a_location := Some p1, a_rig_id := COALESCE p2 (a_rig_id a),
        a_company_id := COALESCE p3 (a_company_id a), a_updated_at := NOW e \<rparr>"

definition update_assets ::
  "env \<Rightarrow> string \<Rightarrow> uuid option \<Rightarrow> uuid option \<Rightarrow> uuid \<Rightarrow> asset list \<Rightarrow> asset list" where
  "update_assets e p1 p2 p3 p4 = map (\<lambda>a. if a_id a = p4 then relocate e p1 p2 p3 a else a)"

text \<open>
  \<^verbatim>\<open>INSERT INTO asset_history (asset_id, action, changed_by, notes)
  VALUES ($1, 'Transfer Completed', $2, $3)\<close>.
\<close>

definition history_entry :: "env \<Rightarrow> user \<Rightarrow> transfer \<Rightarrow> asset_history_row" where
  "history_entry e req_user tr0 =
     \<lparr> h_id = uuid_generate_v4 e 0, h_asset_id = t_asset_id tr0,
       h_action = ''Transfer Completed'', h_changed_by = Some (u_id req_user),
       h_old_values = None, h_new_values = None,
       h_notes = Some (''Transferred to '' @ t_destination tr0 @ '' via '' @ t_transfer_id tr0),
       h_created_at = NOW e \<rparr>"

text \<open>
  \<^verbatim>\<open>INSERT INTO notifications (type, icon, title, description, entity_type, entity_id)
  VALUES ('success','check-double','Transfer Completed',$1,'transfer',$2)\<close>: no
  \<^verbatim>\<open>user_id\<close>, a broadcast.
\<close>

definition completion_broadcast :: "env \<Rightarrow> transfer \<Rightarrow> notification" where
  "completion_broadcast e tr0 =
     \<lparr> n_id = uuid_generate_v4 e 1, n_user_id = None, n_type = ''success'',
       n_icon = ''check-double'', n_title = ''Transfer Completed'',
       n_description = Some (''Transfer '' @ t_transfer_id tr0 @ '' fully approved ''
                              @ en_dash @ '' asset relocated''),
       n_entity_type = Some ''transfer'', n_entity_id = Some (t_id tr0),
       n_is_read = False, n_created_at = NOW e \<rparr>"

text \<open>
  The statements between \<^verbatim>\<open>BEGIN\<close> and \<^verbatim>\<open>COMMIT\<close>, run on the transaction's own
  copy of the database: the transfer update (call 3) and, on \<^verbatim>\<open>approve\<close>, the asset
  update (call 4), the history entry (call 5) and the broadcast (call 6). The first
  rejected call throws and the later ones are not run.
\<close>

definition approveMgr_body ::
  "env \<Rightarrow> user \<Rightarrow> transfer \<times> string \<times> string \<Rightarrow> db \<Rightarrow> error + (transfer option \<times> db)" where
  "approveMgr_body e req_user checked d =
     (case checked of (tr0, action, comment) \<Rightarrow>
        if rejects e 3 then Inl Thrown
        else
          let d1 = d\<lparr> transfers := update_transfers_mgr e (u_id req_user) action comment
                                       (mgr_newStatus action) (t_id tr0) (transfers d) \<rparr>;
              rows = filter (\<lambda>t. t_id t = t_id tr0) (transfers d1)
          in if action = ''approve''
             then if rejects e 4 then Inl Thrown
                  else
                    let d2 = d1\<lparr> assets := update_assets e (t_destination tr0) (t_dest_rig_id tr0)
                                               (t_dest_company_id tr0) (t_asset_id tr0) (assets d1) \<rparr>
                    in if rejects e 5 then Inl Thrown
                       else
                         let d3 = d2\<lparr> asset_history := asset_history d2 @ [history_entry e req_user tr0] \<rparr>
                         in if rejects e 6 then Inl Thrown
                            else Inr (first_row rows,
                                      d3\<lparr> notifications := notifications d3 @ [completion_broadcast e tr0] \<rparr>)
             else Inr (first_row rows, d1))"

text \<open>
  The transaction around them: \<^verbatim>\<open>getClient()\<close> (call 1) still outside the
  \<^verbatim>\<open>try\<close>, then \<^verbatim>\<open>BEGIN\<close> (call 2), the statements and \<^verbatim>\<open>COMMIT\<close> (call 7).
  Whatever throws inside the \<^verbatim>\<open>try\<close> reaches the \<^verbatim>\<open>catch\<close>, which issues
  \<^verbatim>\<open>ROLLBACK\<close> and throws again: the database is the one before \<^verbatim>\<open>BEGIN\<close>.
\<close>

definition approveMgr_write ::
  "env \<Rightarrow> user \<Rightarrow> transfer \<times> string \<times> string \<Rightarrow> db \<Rightarrow> (error + transfer option) \<times> db" where
  "approveMgr_write e req_user checked d =
     (if rejects e 1 then (Inl Thrown, d)
      else if rejects e 2 then (Inl Thrown, d)
      else (case approveMgr_body e req_user checked d of
              Inl err \<Rightarrow> (Inl err, d)
            | Inr (row, d') \<Rightarrow> if rejects e 7 then (Inl Thrown, d) else (Inr row, d')))"

definition approveMgr ::
  "env \<Rightarrow> user \<Rightarrow> string \<Rightarrow> string option \<Rightarrow> string option \<Rightarrow> db \<Rightarrow> (error + transfer option) \<times> db" where
  "approveMgr e req_user ref action comment d =
     (case approveMgr_check e ref action comment d of
        Inl err \<Rightarrow> (Inl err, d)
      | Inr checked \<Rightarrow> approveMgr_write e req_user checked d)"

subsection \<open>Two decisions at the same time\<close>




subsection \<open>DELETE /api/transfers/:id\<close>



section \<open>The two listings\<close>

text \<open>
  A number of the query string, \<^verbatim>\<open>page\<close> or \<^verbatim>\<open>limit\<close>: absent, and then the handler's
  default; or a text from which \<^verbatim>\<open>parseInt\<close> reads a whole number; or a text from which
  it reads \<^verbatim>\<open>NaN\<close>. The number the handler computes with is \<open>None\<close> when it is
  \<^verbatim>\<open>NaN\<close>, and \<^verbatim>\<open>(parseInt(page) - 1) * parseInt(limit)\<close> is \<^verbatim>\<open>NaN\<close> when one of the
  two is. The arithmetic is the exact one, which is JavaScript's as long as the numbers
  are safe integers (below \<open>2 ^ 53\<close> in size).
\<close>

datatype query_number = Absent | Parsed int | NaN

definition parseInt_or :: "int \<Rightarrow> query_number \<Rightarrow> int option" where
  "parseInt_or dflt q = (case q of Absent \<Rightarrow> Some dflt | Parsed n \<Rightarrow> Some n | NaN \<Rightarrow> None)"

definition page_offset :: "int option \<Rightarrow> int option \<Rightarrow> int option" where
  "page_offset page limit =
     (case page of
        None \<Rightarrow> None
      | Some p \<Rightarrow> (case limit of None \<Rightarrow> None | Some l \<Rightarrow> Some ((p - 1) * l)))"

text \<open>
  \<^verbatim>\<open>LIMIT $n OFFSET $m\<close>. Both parameters are of type \<^verbatim>\<open>bigint\<close>: PostgreSQL refuses
  a text that is none (\<^verbatim>\<open>NaN\<close>, or a number out of the range of the type) and a
  negative limit or offset, and else skips \<open>m\<close> rows and returns at most \<open>n\<close>.
\<close>

definition bigint :: "int \<Rightarrow> bool" where
  "bigint n = (- (2 ^ 63) \<le> n \<and> n < 2 ^ 63)"

definition LIMIT_OFFSET :: "int option \<Rightarrow> int option \<Rightarrow> 'a list \<Rightarrow> error + 'a list" where
  "LIMIT_OFFSET limit offset rows =
     (case limit of
        None \<Rightarrow> Inl Thrown
      | Some lim \<Rightarrow>
          (case offset of
             None \<Rightarrow> Inl Thrown
           | Some off \<Rightarrow>
               if bigint lim \<and> bigint off \<and> 0 \<le> lim \<and> 0 \<le> off
               then Inr (take (nat lim) (drop (nat off) rows))
               else Inl Thrown))"

text \<open>The answer of a listing, \<^verbatim>\<open>res.json({ data: rows, total: rows.length })\<close>; the
  field \<^verbatim>\<open>total\<close> is \<open>total_rows\<close> here.\<close>

record 'a listing =
  data :: "'a list"
  total_rows :: nat

text \<open>
  \<^verbatim>\<open>GET /api/transfers\<close>, with the defaults 1 and 50 for \<^verbatim>\<open>page\<close> and \<^verbatim>\<open>limit\<close>.
  \<open>cond\<close> stands for the \<^verbatim>\<open>WHERE\<close> clause the handler builds from the query string
  (status, priority, asset, search); its lookup of an asset compares the code with the
  parameter and the id as \<^verbatim>\<open>a.id::text\<close>, two texts. The rows are taken in the order
  \<^verbatim>\<open>request_date DESC, transfer_id DESC\<close> (codes compared byte by byte); the columns
  joined in for display are left out of a row. The query is call 0.
\<close>

definition transfers_ordered :: "transfer list \<Rightarrow> transfer list" where
  "transfers_ordered rows = rev (sort_key t_request_date (sort_key t_transfer_id rows))"

definition get_transfers ::
  "env \<Rightarrow> (transfer \<Rightarrow> bool) \<Rightarrow> query_number \<Rightarrow> query_number \<Rightarrow> db \<Rightarrow> error + transfer listing" where
  "get_transfers e cond page limit d =
     (let lim = parseInt_or 50 limit;
          offset = page_offset (parseInt_or 1 page) lim
      in if rejects e 0 then Inl Thrown
         else (case LIMIT_OFFSET lim offset (transfers_ordered (filter cond (transfers d))) of
                 Inl err \<Rightarrow> Inl err
               | Inr rows \<Rightarrow> Inr \<lparr> data = rows, total_rows = length rows \<rparr>))"

text \<open>
  \<^verbatim>\<open>GET /api/maintenance\<close>, with the defaults 1 and 100. A row is the schedule with
  the derived columns \<^verbatim>\<open>days_until_due\<close>, \<^verbatim>\<open>live_status\<close> and \<^verbatim>\<open>log_count\<close>; the
  order is the urgency rank of the \<^verbatim>\<open>ORDER BY\<close>, then \<^verbatim>\<open>next_due_date ASC\<close>.
\<close>

record maintenance_row =
  schedule :: maintenance_schedule
  row_days_until_due :: int
  row_live_status :: string
  row_log_count :: nat

definition urgency_rank :: "date \<Rightarrow> maintenance_schedule \<Rightarrow> nat" where
  "urgency_rank today ms =
     (if ms_status ms \<notin> set [''Completed'', ''Cancelled''] \<and> ms_next_due_date ms < today then 1
      else if ms_status ms \<notin> set [''Completed'', ''Cancelled'']
              \<and> ms_next_due_date ms \<le> today + ms_alert_days ms then 2
      else 3)"

definition maintenance_ordered :: "date \<Rightarrow> maintenance_schedule list \<Rightarrow> maintenance_schedule list" where
  "maintenance_ordered today rows = sort_key (urgency_rank today) (sort_key ms_next_due_date rows)"

definition select_maintenance_row :: "env \<Rightarrow> db \<Rightarrow> maintenance_schedule \<Rightarrow> maintenance_row" where
  "select_maintenance_row e d ms =
     \<lparr> schedule = ms, row_days_until_due = days_until_due ms (CURRENT_DATE e),
       row_live_status = live_status ms (CURRENT_DATE e),
       row_log_count = length (filter (\<lambda>ml. ml_schedule_id ml = ms_id ms) (maintenance_logs d)) \<rparr>"

definition get_maintenance ::
  "env \<Rightarrow> (maintenance_schedule \<Rightarrow> bool) \<Rightarrow> query_number \<Rightarrow> query_number \<Rightarrow> db
     \<Rightarrow> error + maintenance_row listing" where
  "get_maintenance e cond page limit d =
     (let lim = parseInt_or 100 limit;
          offset = page_offset (parseInt_or 1 page) lim
      in if rejects e 0 then Inl Thrown
         else (case LIMIT_OFFSET lim offset
                      (map (select_maintenance_row e d)
                         (maintenance_ordered (CURRENT_DATE e)
                            (filter cond (maintenance_schedules d)))) of
                 Inl err \<Rightarrow> Inl err
               | Inr rows \<Rightarrow> Inr \<lparr> data = rows, total_rows = length rows \<rparr>))"

section \<open>A small database to run the routes on\<close>

text \<open>
  Three users, one asset at Rig 2, and one transfer of that asset to Rig 5 in a
  given status; a request environment in which no call is rejected, and one in which
  exactly the call \<open>k\<close> is.
\<close>

definition user_row :: "uuid \<Rightarrow> string \<Rightarrow> user" where
  "user_row i role =
     \<lparr> u_id = i, u_full_name = ''User '' @ i, u_email = i @ ''@rigasset.com'',
       u_role = role, u_status = ''Active'' \<rparr>"

definition asset_row :: asset where
  "asset_row =
     \<lparr> a_id = ''a1'', a_asset_id = ''AST-001'', a_name = ''Top Drive'',
       a_category = ''Drilling Equipment'', a_company_id = Some ''c1'',
       a_rig_id = Some ''rig2'', a_contract_id = None, a_location = Some ''Rig 2'',
       a_status = ''Active'', a_value_usd = 0, a_acquisition_date = None,
       a_year_manufactured = None, a_serial_number = None, a_manufacturer = None,
       a_model = None, a_weight_kg = None, a_dimensions = None, a_notes = None,
       a_created_by = None, a_created_at = 0, a_updated_at = 0 \<rparr>"

definition transfer_row :: "string \<Rightarrow> transfer" where
  "transfer_row st =
     \<lparr> t_id = ''t1'', t_transfer_id = ''TR-001'', t_asset_id = ''a1'',
       t_current_location = ''Rig 2'', t_destination = ''Rig 5'',
       t_dest_rig_id = Some ''rig5'', t_dest_company_id = None,
       t_priority = ''Normal'', t_transfer_type = ''Rig to Rig'', t_reason = ''needed'',
       t_instructions = None, t_requested_by = Some ''u4'', t_request_date = 90,
       t_required_date = None, t_status = st,
       t_ops_approved_by = None, t_ops_action = None, t_ops_date = None,
       t_ops_comment = None, t_mgr_approved_by = None, t_mgr_action = None,
       t_mgr_date = None, t_mgr_comment = None, t_created_at = 0, t_updated_at = 0 \<rparr>"

definition ops_approved_row :: transfer where
  "ops_approved_row =
     (transfer_row ''Ops Approved'')
       \<lparr> t_ops_approved_by := Some ''u3'', t_ops_action := Some ''approve'',
         t_ops_date := Some 95, t_ops_comment := Some ''ok'', t_updated_at := 10 \<rparr>"

definition completed_row :: transfer where
  "completed_row =
     ops_approved_row
       \<lparr> t_mgr_approved_by := Some ''u2'', t_mgr_action := Some ''approve'',
         t_mgr_date := Some 98, t_mgr_comment := Some ''ok'', t_status := ''Completed'',
         t_updated_at := 20 \<rparr>"

definition db_with :: "transfer list \<Rightarrow> db" where
  "db_with ts =
     \<lparr> users = [user_row ''u1'' ''Admin'', user_row ''u2'' ''Asset Manager'',
                user_row ''u3'' ''Operations Manager''],
       assets = [asset_row], asset_history = [], maintenance_schedules = [],
       maintenance_logs = [], transfers = ts, notifications = [] \<rparr>"

definition calm :: env where
  "calm = \<lparr> CURRENT_DATE = 100, NOW = 5000, js_today = 100,
            uuid_generate_v4 = (\<lambda>k. replicate (Suc k) (CHR ''n'')),
            rejects = (\<lambda>k. False) \<rparr>"

definition rejecting :: "nat \<Rightarrow> env" where
  "rejecting k = calm\<lparr> rejects := (\<lambda>j. j = k) \<rparr>"


section \<open>POST /api/maintenance/:id/complete\<close>

text \<open>
  The request body. A date field holds the day its \<^verbatim>\<open>YYYY-MM-DD\<close> text names (a
  date without a time of day or a zone); a missing, \<^verbatim>\<open>null\<close> or empty date is
  \<open>None\<close>.
\<close>

record completion =
  completionDate :: "date option"
  completedBy :: "string option"
  actualHours :: "int option"
  actualCost :: "int option"
  partsUsed :: "string option"
  workNotes :: "string option"
  nextDueDate :: "date option"

text \<open>\<^verbatim>\<open>x || null\<close> on a number: zero is falsy.\<close>

definition num_or_null :: "int option \<Rightarrow> int option" where
  "num_or_null v = (case v of None \<Rightarrow> None | Some n \<Rightarrow> if n = 0 then None else Some n)"

text \<open>
  The day number of a calendar date of the proleptic Gregorian calendar, counted from
  1970-01-01, which is what parsing \<^verbatim>\<open>YYYY-MM-DD\<close> amounts to.
\<close>

definition days_from_civil :: "int \<Rightarrow> int \<Rightarrow> int \<Rightarrow> date" where
  "days_from_civil y m dd =
     (let y' = (if m \<le> 2 then y - 1 else y);
          era = y' div 400;
          yoe = y' - era * 400;
          doy = (153 * (if m > 2 then m - 3 else m + 9) + 2) div 5 + dd - 1;
          doe = yoe * 365 + yoe div 4 - yoe div 100 + doy
      in era * 146097 + doe - 719468)"

text \<open>
  \<^verbatim>\<open>new Date(new Date(completionDate).getTime() + frequency_days * 86400000)
  .toISOString().slice(0, 10)\<close>: a date without a time is read as midnight UTC, so
  its time value is the day number times the milliseconds of a day, and the date of a
  time value is the day it falls on.
\<close>

definition getTime :: "date \<Rightarrow> int" where
  "getTime day = day * 86400000"

definition toISOString_date :: "int \<Rightarrow> date" where
  "toISOString_date ms = ms div 86400000"

definition auto_next_due :: "date \<Rightarrow> int \<Rightarrow> date" where
  "auto_next_due completion_date frequency_days =
     toISOString_date (getTime completion_date + frequency_days * 86400000)"

text \<open>
  The ten characters \<^verbatim>\<open>.toISOString().slice(0, 10)\<close> are a date \<^verbatim>\<open>YYYY-MM-DD\<close> that
  PostgreSQL reads only for a day of the years 1 to 9999. Outside of them the ISO text
  has a year of another form (a sign and six digits; the year 0000), or there is none
  because the time value is out of the range of \<^verbatim>\<open>Date\<close> and \<^verbatim>\<open>toISOString\<close>
  throws; in each case the request ends in an exception before anything is written.
\<close>

definition sliced_is_date :: "date \<Rightarrow> bool" where
  "sliced_is_date day = (days_from_civil 1 1 1 \<le> day \<and> day \<le> days_from_civil 9999 12 31)"

text \<open>
  \<^verbatim>\<open>INSERT INTO maintenance_logs (schedule_id, completion_date, completed_by,
  actual_hours, actual_cost, parts_used, work_notes, next_due_date) VALUES (...)\<close>: the
  row, and what the table asks of it: the two CHECKs (hours and cost not negative),
  the precision of \<^verbatim>\<open>NUMERIC(6,2)\<close> and \<^verbatim>\<open>NUMERIC(18,2)\<close>, the primary key and the
  foreign key to the schedule.
\<close>

definition log_entry :: "env \<Rightarrow> maintenance_schedule \<Rightarrow> completion \<Rightarrow> date \<Rightarrow> string \<Rightarrow> date \<Rightarrow> maintenance_log" where
  "log_entry e sched0 body completion_date completed_by computedNextDue =
     \<lparr> ml_id = uuid_generate_v4 e 0, ml_schedule_id = ms_id sched0,
       ml_completion_date = completion_date, ml_completed_by = completed_by,
       ml_completed_by_user_id = None,
       ml_actual_hours = num_or_null (actualHours body),
       ml_actual_cost = num_or_null (actualCost body),
       ml_parts_used = or_null (partsUsed body), ml_work_notes = or_null (workNotes body),
       ml_next_due_date = Some computedNextDue, ml_created_at = NOW e \<rparr>"

definition log_constraints :: "maintenance_log \<Rightarrow> db \<Rightarrow> bool" where
  "log_constraints ml d =
     ((case ml_actual_hours ml of None \<Rightarrow> True | Some h \<Rightarrow> 0 \<le> h \<and> h < 10 ^ 4)
      \<and> (case ml_actual_cost ml of None \<Rightarrow> True | Some c \<Rightarrow> 0 \<le> c \<and> c < 10 ^ 16)
      \<and> ml_id ml \<notin> set (map ml_id (maintenance_logs d))
      \<and> ml_schedule_id ml \<in> set (map ms_id (maintenance_schedules d)))"

text \<open>
  \<^verbatim>\<open>UPDATE maintenance_schedules SET last_done_date = $1, next_due_date = $2,
  status = 'Scheduled' WHERE id = $3\<close>, with the \<^verbatim>\<open>updated_at\<close> trigger, and the
  table's \<^verbatim>\<open>CONSTRAINT chk_maint_dates CHECK (last_done_date IS NULL OR next_due_date
  >= last_done_date)\<close>, which every row the statement writes has to meet.
\<close>

definition update_schedules ::
  "env \<Rightarrow> date \<Rightarrow> date \<Rightarrow> uuid \<Rightarrow> maintenance_schedule list \<Rightarrow> maintenance_schedule list" where
  "update_schedules e p1 p2 p3 =
     map (\<lambda>ms. if ms_id ms = p3
               then ms\<lparr> ms_last_done_date := Some p1, ms_next_due_date := p2,
                        ms_status := ''Scheduled'', ms_updated_at := NOW e \<rparr>
               else ms)"

definition chk_maint_dates :: "maintenance_schedule \<Rightarrow> bool" where
  "chk_maint_dates ms =
     (case ms_last_done_date ms of None \<Rightarrow> True | Some l \<Rightarrow> l \<le> ms_next_due_date ms)"

text \<open>
  The writes of the handler, once the two required fields are known to be there: the
  next due date (the one of the request, else computed), the insert of the log (call
  1) and the update of the schedule (call 2), answered with \<^verbatim>\<open>updated[0]\<close> and
  \<^verbatim>\<open>log[0]\<close>. The two writes are two calls of \<^verbatim>\<open>query\<close>, each committed by itself:
  the log row is in the table when the update is refused.
\<close>

definition complete_writes ::
  "env \<Rightarrow> maintenance_schedule \<Rightarrow> completion \<Rightarrow> date \<Rightarrow> string \<Rightarrow> db
     \<Rightarrow> (error + maintenance_schedule option \<times> maintenance_log) \<times> db" where
  "complete_writes e sched0 body completion_date completed_by d =
     (let computedNextDue =
            (case nextDueDate body of
               Some day \<Rightarrow> day
             | None \<Rightarrow> auto_next_due completion_date (ms_frequency_days sched0));
          log = log_entry e sched0 body completion_date completed_by computedNextDue;
          updated = update_schedules e completion_date computedNextDue (ms_id sched0)
                      (maintenance_schedules d);
          d1 = d\<lparr> maintenance_logs := maintenance_logs d @ [log] \<rparr>
      in if nextDueDate body = None \<and> \<not> sliced_is_date computedNextDue then (Inl Thrown, d)
         else if rejects e 1 \<or> \<not> log_constraints log d then (Inl Thrown, d)
         else if rejects e 2
                 \<or> \<not> list_all chk_maint_dates (filter (\<lambda>ms. ms_id ms = ms_id sched0) updated)
         then (Inl Thrown, d1)
         else (Inr (first_row (filter (\<lambda>ms. ms_id ms = ms_id sched0) updated), log),
               d1\<lparr> maintenance_schedules := updated \<rparr>))"

text \<open>
  The handler: the lookup of the schedule by id or code,
  \<^verbatim>\<open>SELECT * FROM maintenance_schedules WHERE id = $1 OR pm_id = $1\<close> (call 0, 404),
  the test \<^verbatim>\<open>!completionDate || !completedBy\<close> (400; the empty string is falsy), then
  the writes. The rows of the lookup reach the handler only where call 0 is not
  rejected.
\<close>

definition complete ::
  "env \<Rightarrow> string \<Rightarrow> completion \<Rightarrow> db \<Rightarrow> (error + maintenance_schedule option \<times> maintenance_log) \<times> db" where
  "complete e ref body d =
     (if rejects e 0 then (Inl Thrown, d)
      else
        (case filter (\<lambda>ms. ms_id ms = ref \<or> ms_pm_id ms = ref) (maintenance_schedules d) of
           [] \<Rightarrow> (Inl (Status 404 ''Schedule not found''), d)
         | sched0 # _ \<Rightarrow>
             (case completionDate body of
                None \<Rightarrow> (Inl (Status 400 ''completionDate and completedBy are required''), d)
              | Some completion_date \<Rightarrow>
                  (case or_null (completedBy body) of
                     None \<Rightarrow> (Inl (Status 400 ''completionDate and completedBy are required''), d)
                   | Some completed_by \<Rightarrow>
                       complete_writes e sched0 body completion_date completed_by d))))"

section \<open>The routes on the schema\<close>


definition route_approve_ops ::
  "env \<Rightarrow> user \<Rightarrow> string \<Rightarrow> string option \<Rightarrow> string option \<Rightarrow> db \<Rightarrow> (error + transfer option) \<times> db" where
  "route_approve_ops e req_user ref action comment d =
     approveOps (prepared id_or_code e) req_user ref action comment d"

definition route_approve_mgr ::
  "env \<Rightarrow> user \<Rightarrow> string \<Rightarrow> string option \<Rightarrow> string option \<Rightarrow> db \<Rightarrow> (error + transfer option) \<times> db" where
  "route_approve_mgr e req_user ref action comment d =
     approveMgr (prepared id_or_code e) req_user ref action comment d"


definition route_complete ::
  "env \<Rightarrow> string \<Rightarrow> completion \<Rightarrow> db \<Rightarrow> (error + maintenance_schedule option \<times> maintenance_log) \<times> db" where
  "route_complete e ref body d = complete (prepared id_or_code e) ref body d"


definition db_with_schedule :: "maintenance_schedule \<Rightarrow> db" where
  "db_with_schedule ms = (db_with [])\<lparr> maintenance_schedules := [ms] \<rparr>"

definition completion_on :: "date \<Rightarrow> date option \<Rightarrow> completion" where
  "completion_on day next_due =
     \<lparr> completionDate = Some day, completedBy = Some ''Fatima'', actualHours = None,
       actualCost = None, partsUsed = None, workNotes = None, nextDueDate = next_due \<rparr>"

text \<open>The pending transfer of the small database under another id and code.\<close>

definition transfer_numbered :: "string \<Rightarrow> transfer" where
  "transfer_numbered i = (transfer_row ''Pending'')\<lparr> t_id := ''t'' @ i, t_transfer_id := ''TR-00'' @ i \<rparr>"

section \<open>Properties of the maintenance reads\<close>

lemma v_maintenance_follows_spec:
  "v_maintenance_live_status ms today = label (fst (deriveLiveStatus ms today))"
  by (simp add: v_maintenance_live_status_def deriveLiveStatus_def)

lemma live_status_follows_spec_unless_in_progress:
  "ms_status ms \<noteq> ''In Progress'' \<Longrightarrow>
   live_status ms today = label (fst (deriveLiveStatus ms today))"
  by (simp add: live_status_def deriveLiveStatus_def)

lemma days_until_due_follows_spec:
  "days_until_due ms today = snd (deriveLiveStatus ms today)"
  by (simp add: days_until_due_def deriveLiveStatus_def)

lemma live_status_never_in_progress:
  "live_status ms today \<noteq> ''In Progress''"
  by (simp add: live_status_def)

text \<open>
  Claim C2. The listing is claimed to return the stored status of a schedule that is
  \<^verbatim>\<open>In Progress\<close>. At the schedule below, stored \<^verbatim>\<open>In Progress\<close> and due on day 99,
  read on day 100, the listing's CASE answers \<^verbatim>\<open>Overdue\<close>, while the
  specification's rule and the view \<^verbatim>\<open>v_maintenance\<close> both answer
  \<^verbatim>\<open>In Progress\<close>; the days until due are \<open>-1\<close> in all of them.
\<close>

theorem live_status_overrides_in_progress:
  "live_status (schedule_row ''s1'' ''In Progress'' 99 14) 100 = ''Overdue''
   \<and> label (fst (deriveLiveStatus (schedule_row ''s1'' ''In Progress'' 99 14) 100)) = ''In Progress''
   \<and> v_maintenance_live_status (schedule_row ''s1'' ''In Progress'' 99 14) 100 = ''In Progress''
   \<and> days_until_due (schedule_row ''s1'' ''In Progress'' 99 14) 100 = - 1"
  by (simp add: live_status_def deriveLiveStatus_def v_maintenance_live_status_def
      days_until_due_def schedule_row_def)


section \<open>The id-or-code lookups are rejected\<close>

lemma id_or_code_not_typed: "\<not> parameter_typed id_or_code"
  by (simp add: parameter_typed_def id_or_code_def)

lemma rejects_prepared_lookup: "rejects (prepared id_or_code e) 0"
  by (simp add: prepared_def id_or_code_not_typed)

lemma trim_ok: "trim ''ok'' = ''ok''"
  by code_simp


lemma approveOps_lookup_rejected:
  fixes e :: env and u :: user and d :: db
  assumes "rejects e 0"
  shows "\<exists>err. approveOps e u ref action comment d = (Inl err, d)
           \<and> (err = Thrown \<or> (\<exists>msg. err = ValidationError msg))"
  using assms by (cases action) (simp_all add: approveOps_def approveOps_check_def)

lemma approveMgr_lookup_rejected:
  fixes e :: env and u :: user and d :: db
  assumes "rejects e 0"
  shows "\<exists>err. approveMgr e u ref action comment d = (Inl err, d)
           \<and> (err = Thrown \<or> (\<exists>msg. err = ValidationError msg))"
  using assms by (cases action) (simp_all add: approveMgr_def approveMgr_check_def)

lemma approveOps_decision_thrown:
  fixes e :: env and u :: user and d :: db
  assumes "rejects e 0" and "act \<in> set [''approve'', ''reject'', ''hold'']" and "trim c \<noteq> []"
  shows "approveOps e u ref (Some act) (Some c) d = (Inl Thrown, d)"
  using assms by (simp add: approveOps_def approveOps_check_def no_comment_def)

lemma approveMgr_decision_thrown:
  fixes e :: env and u :: user and d :: db
  assumes "rejects e 0" and "act \<in> set [''approve'', ''reject'', ''hold'']" and "trim c \<noteq> []"
  shows "approveMgr e u ref (Some act) (Some c) d = (Inl Thrown, d)"
  using assms by (simp add: approveMgr_def approveMgr_check_def no_comment_def)

text \<open>
  Claim C3. On the schema, the lookup of both approval routes is rejected before the
  status of the transfer is read: whatever the request and the table, a decision is
  answered with the 400 of the two checks of the request body or with the exception of
  the lookup, and the database is returned as it was. So no decision succeeds, from
  \<^verbatim>\<open>Pending\<close> or from \<^verbatim>\<open>Ops Approved\<close> or from any status, and none is refused
  with a 409: on the completed transfer of the small database, by its code as by its
  id, both routes throw, which the error handler answers with 500.
\<close>

theorem approval_lookup_rejected_on_schema:
  fixes e :: env and u :: user and d :: db
  shows "(\<exists>err. route_approve_ops e u ref action comment d = (Inl err, d)
            \<and> (err = Thrown \<or> (\<exists>msg. err = ValidationError msg)))
       \<and> (\<exists>err. route_approve_mgr e u ref action comment d = (Inl err, d)
            \<and> (err = Thrown \<or> (\<exists>msg. err = ValidationError msg)))
       \<and> route_approve_ops calm (user_row ''u3'' ''Operations Manager'') ''TR-001''
            (Some ''approve'') (Some ''ok'') (db_with [completed_row])
           = (Inl Thrown, db_with [completed_row])
       \<and> route_approve_mgr calm (user_row ''u2'' ''Asset Manager'') ''t1''
            (Some ''approve'') (Some ''ok'') (db_with [completed_row])
           = (Inl Thrown, db_with [completed_row])
       \<and> route_approve_ops calm (user_row ''u3'' ''Operations Manager'') ''TR-001''
            (Some ''approve'') (Some ''ok'') (db_with [transfer_row ''Pending''])
           = (Inl Thrown, db_with [transfer_row ''Pending''])
       \<and> errorHandler ''42883'' = 500"
proof -
  have a: "''approve'' \<in> set [''approve'', ''reject'', ''hold'']" by simp
  have t: "trim ''ok'' \<noteq> []" by (simp add: trim_ok)
  show ?thesis
    unfolding route_approve_ops_def route_approve_mgr_def
    by (intro conjI approveOps_lookup_rejected approveMgr_lookup_rejected
          approveOps_decision_thrown approveMgr_decision_thrown rejects_prepared_lookup a t)
       (simp add: errorHandler_def)
qed

section \<open>The final approval\<close>

lemma filter_update_transfers_mgr:
  "filter (\<lambda>t. t_id t = ref \<or> t_transfer_id t = ref) (update_transfers_mgr e p1 p2 p3 p4 p5 ts)
   = update_transfers_mgr e p1 p2 p3 p4 p5 (filter (\<lambda>t. t_id t = ref \<or> t_transfer_id t = ref) ts)"
  by (induction ts) (auto simp: update_transfers_mgr_def)

lemma approveMgr_body_approve:
  fixes e :: env and u :: user and d :: db
  shows "approveMgr_body e u (tr0, ''approve'', c) d =
     (if rejects e 3 \<or> rejects e 4 \<or> rejects e 5 \<or> rejects e 6 then Inl Thrown
      else Inr (first_row (filter (\<lambda>t. t_id t = t_id tr0)
                  (update_transfers_mgr e (u_id u) ''approve'' c ''Completed'' (t_id tr0) (transfers d))),
                d\<lparr> transfers := update_transfers_mgr e (u_id u) ''approve'' c ''Completed''
                                    (t_id tr0) (transfers d),
                   assets := update_assets e (t_destination tr0) (t_dest_rig_id tr0)
                               (t_dest_company_id tr0) (t_asset_id tr0) (assets d),
                   asset_history := asset_history d @ [history_entry e u tr0],
                   notifications := notifications d @ [completion_broadcast e tr0] \<rparr>))"
  by (simp add: approveMgr_body_def mgr_newStatus_def Let_def)

text \<open>
  Claim C1. For a transfer \<open>tr0\<close> in status \<^verbatim>\<open>Ops Approved\<close> and every pattern of
  rejected calls, stage 2 with \<^verbatim>\<open>approve\<close> ends in one of two databases. When a call
  is rejected it throws and the database is the one it started from, so the reference
  still resolves to \<open>tr0\<close>, unchanged. When none is, the transfer rows with its id carry
  the stage-2 fields and the status \<^verbatim>\<open>Completed\<close>, the asset rows are updated, and
  the history entry and the broadcast are appended: all four writes together.
\<close>

theorem final_approval_all_or_nothing:
  fixes e :: env and u :: user and d :: db
  assumes "trim c \<noteq> []" and "select_transfer ref d = tr0 # rest"
      and "t_status tr0 = ''Ops Approved''"
  shows "(if rejects e 0 \<or> rejects e 1 \<or> rejects e 2 \<or> rejects e 3 \<or> rejects e 4
             \<or> rejects e 5 \<or> rejects e 6 \<or> rejects e 7
          then approveMgr e u ref (Some ''approve'') (Some c) d = (Inl Thrown, d)
          else (\<exists>row. approveMgr e u ref (Some ''approve'') (Some c) d =
                  (Inr row,
                   d\<lparr> transfers := update_transfers_mgr e (u_id u) ''approve'' c ''Completed''
                                       (t_id tr0) (transfers d),
                      assets := update_assets e (t_destination tr0) (t_dest_rig_id tr0)
                                  (t_dest_company_id tr0) (t_asset_id tr0) (assets d),
                      asset_history := asset_history d @ [history_entry e u tr0],
                      notifications := notifications d @ [completion_broadcast e tr0] \<rparr>))
               \<and> (\<exists>rest'. select_transfer ref (snd (approveMgr e u ref (Some ''approve'') (Some c) d))
                     = tr0\<lparr> t_mgr_approved_by := Some (u_id u), t_mgr_action := Some ''approve'',
                             t_mgr_date := Some (CURRENT_DATE e), t_mgr_comment := Some c,
                             t_status := ''Completed'', t_updated_at := NOW e \<rparr> # rest'))"
proof (cases "rejects e 0")
  case True
  then show ?thesis
    by (simp add: approveMgr_def approveMgr_check_def no_comment_def assms(1))
next
  case False
  have chk: "approveMgr_check e ref (Some ''approve'') (Some c) d = Inr (tr0, ''approve'', c)"
    using False assms by (simp add: approveMgr_check_def no_comment_def)
  show ?thesis
  proof (cases "rejects e 1 \<or> rejects e 2 \<or> rejects e 3 \<or> rejects e 4
                 \<or> rejects e 5 \<or> rejects e 6 \<or> rejects e 7")
    case True
    then show ?thesis
      by (auto simp: approveMgr_def chk approveMgr_write_def approveMgr_body_approve)
  next
    case none: False
    let ?ts = "update_transfers_mgr e (u_id u) ''approve'' c ''Completed'' (t_id tr0) (transfers d)"
    let ?d' = "d\<lparr> transfers := ?ts,
                    assets := update_assets e (t_destination tr0) (t_dest_rig_id tr0)
                                (t_dest_company_id tr0) (t_asset_id tr0) (assets d),
                    asset_history := asset_history d @ [history_entry e u tr0],
                    notifications := notifications d @ [completion_broadcast e tr0] \<rparr>"
    have run: "approveMgr e u ref (Some ''approve'') (Some c) d
                 = (Inr (first_row (filter (\<lambda>t. t_id t = t_id tr0) ?ts)), ?d')"
      using none by (simp add: approveMgr_def chk approveMgr_write_def approveMgr_body_approve)
    have "select_transfer ref ?d'
            = update_transfers_mgr e (u_id u) ''approve'' c ''Completed'' (t_id tr0) (tr0 # rest)"
      using assms(2) by (simp add: select_transfer_def filter_update_transfers_mgr)
    then have "\<exists>rest'. select_transfer ref ?d'
                 = tr0\<lparr> t_mgr_approved_by := Some (u_id u), t_mgr_action := Some ''approve'',
                         t_mgr_date := Some (CURRENT_DATE e), t_mgr_comment := Some c,
                         t_status := ''Completed'', t_updated_at := NOW e \<rparr> # rest'"
      by (simp add: update_transfers_mgr_def)
    with run none False show ?thesis by simp
  qed
qed

theorem final_approval_all_or_nothing_witness:
  "approveMgr (rejecting 6) (user_row ''u2'' ''Asset Manager'') ''TR-001'' (Some ''approve'') (Some ''ok'')
      (db_with [ops_approved_row])
     = (Inl Thrown, db_with [ops_approved_row])
   \<and> snd (approveMgr calm (user_row ''u2'' ''Asset Manager'') ''TR-001'' (Some ''approve'') (Some ''ok'')
            (db_with [ops_approved_row]))
     = (db_with [ops_approved_row
                   \<lparr> t_mgr_approved_by := Some ''u2'', t_mgr_action := Some ''approve'',
                     t_mgr_date := Some 100, t_mgr_comment := Some ''ok'',
                     t_status := ''Completed'', t_updated_at := 5000 \<rparr>])
         \<lparr> assets := [asset_row\<lparr> a_location := Some ''Rig 5'', a_rig_id := Some ''rig5'',
                                  a_updated_at := 5000 \<rparr>],
           asset_history := [history_entry calm (user_row ''u2'' ''Asset Manager'') ops_approved_row],
           notifications := [completion_broadcast calm ops_approved_row] \<rparr>"
  using final_approval_all_or_nothing
          [where c = "''ok''" and ref = "''TR-001''" and d = "db_with [ops_approved_row]"
             and ?tr0.0 = ops_approved_row and rest = "[]" and e = "rejecting 6"
             and u = "user_row ''u2'' ''Asset Manager''"]
        final_approval_all_or_nothing
          [where c = "''ok''" and ref = "''TR-001''" and d = "db_with [ops_approved_row]"
             and ?tr0.0 = ops_approved_row and rest = "[]" and e = calm
             and u = "user_row ''u2'' ''Asset Manager''"]
  by (auto simp: select_transfer_def db_with_def ops_approved_row_def transfer_row_def calm_def
        rejecting_def trim_ok update_transfers_mgr_def update_assets_def
        relocate_def COALESCE_def asset_row_def user_row_def)

section \<open>The asset update of the bundle\<close>





section \<open>Cancelling a transfer\<close>









section \<open>Completing a maintenance task\<close>

lemma auto_next_due_adds_days: "auto_next_due day n = day + n"
proof -
  have "day * 86400000 + n * 86400000 = (day + n) * 86400000"
    by (simp add: distrib_right)
  then show ?thesis
    by (simp add: auto_next_due_def getTime_def toISOString_date_def)
qed

lemma next_due_of_the_example:
  "auto_next_due (days_from_civil 2025 1 19) 30 = days_from_civil 2025 2 18"
  by (simp add: auto_next_due_adds_days days_from_civil_def)

text \<open>
  Claim C6. On the schema, the lookup of the route is rejected before the request
  body is read: whatever the reference, the body and the tables, the route throws and
  the database is returned as it was. So a request without \<^verbatim>\<open>completedBy\<close> is not
  answered with the 400 of the handler, and a request with both fields writes no log
  and leaves the schedule as it is stored; the error handler answers with 500.
\<close>

theorem completion_lookup_rejected_on_schema:
  fixes e :: env and d :: db
  shows "route_complete e ref body d = (Inl Thrown, d)
       \<and> route_complete calm ''PM-s1'' ((completion_on 100 None)\<lparr> completedBy := None \<rparr>)
            (db_with_schedule (schedule_row ''s1'' ''In Progress'' 99 14))
           = (Inl Thrown, db_with_schedule (schedule_row ''s1'' ''In Progress'' 99 14))
       \<and> route_complete calm ''PM-s1'' (completion_on 100 None)
            (db_with_schedule (schedule_row ''s1'' ''In Progress'' 99 14))
           = (Inl Thrown, db_with_schedule (schedule_row ''s1'' ''In Progress'' 99 14))
       \<and> errorHandler ''42883'' = 500"
  by (simp add: route_complete_def complete_def rejects_prepared_lookup errorHandler_def)

section \<open>The two writes of a completion\<close>







section \<open>Two decisions on one transfer\<close>











section \<open>The transfers the routes create\<close>





section \<open>The total of a listing\<close>

lemma LIMIT_OFFSET_page:
  assumes "0 \<le> lim" and "0 \<le> off" and "lim < 2 ^ 63" and "off < 2 ^ 63"
  shows "LIMIT_OFFSET (Some lim) (Some off) rows = Inr (take (nat lim) (drop (nat off) rows))"
  using assms by (simp add: LIMIT_OFFSET_def bigint_def)

lemma length_transfers_ordered: "length (transfers_ordered rows) = length rows"
  by (simp add: transfers_ordered_def)

lemma length_maintenance_ordered: "length (maintenance_ordered today rows) = length rows"
  by (simp add: maintenance_ordered_def)

lemma get_transfers_page:
  fixes e :: env and d :: db
  assumes "\<not> rejects e 0" and "parseInt_or 1 page = Some p" and "parseInt_or 50 limit = Some lim"
      and "0 \<le> lim" and "0 \<le> (p - 1) * lim" and "lim < 2 ^ 63" and "(p - 1) * lim < 2 ^ 63"
      and "rows = take (nat lim) (drop (nat ((p - 1) * lim)) (transfers_ordered (filter cond (transfers d))))"
  shows "get_transfers e cond page limit d = Inr \<lparr> data = rows, total_rows = length rows \<rparr>"
    and "length rows = min (nat lim) (length (filter cond (transfers d)) - nat ((p - 1) * lim))"
proof -
  show "get_transfers e cond page limit d = Inr \<lparr> data = rows, total_rows = length rows \<rparr>"
    using assms(1)
    by (simp add: get_transfers_def assms(2,3) page_offset_def Let_def
          LIMIT_OFFSET_page [OF assms(4-7)] assms(8))
  show "length rows = min (nat lim) (length (filter cond (transfers d)) - nat ((p - 1) * lim))"
    by (simp add: assms(8) length_transfers_ordered)
qed

lemma get_maintenance_page:
  fixes e :: env and d :: db
  assumes "\<not> rejects e 0" and "parseInt_or 1 page = Some p" and "parseInt_or 100 limit = Some lim"
      and "0 \<le> lim" and "0 \<le> (p - 1) * lim" and "lim < 2 ^ 63" and "(p - 1) * lim < 2 ^ 63"
      and "rows = take (nat lim) (drop (nat ((p - 1) * lim))
                    (map (select_maintenance_row e d)
                       (maintenance_ordered (CURRENT_DATE e) (filter cond (maintenance_schedules d)))))"
  shows "get_maintenance e cond page limit d = Inr \<lparr> data = rows, total_rows = length rows \<rparr>"
    and "length rows = min (nat lim) (length (filter cond (maintenance_schedules d)) - nat ((p - 1) * lim))"
proof -
  show "get_maintenance e cond page limit d = Inr \<lparr> data = rows, total_rows = length rows \<rparr>"
    using assms(1)
    by (simp add: get_maintenance_def assms(2,3) page_offset_def Let_def
          LIMIT_OFFSET_page [OF assms(4-7)] assms(8))
  show "length rows = min (nat lim) (length (filter cond (maintenance_schedules d)) - nat ((p - 1) * lim))"
    by (simp add: assms(8) length_maintenance_ordered)
qed

text \<open>
  Claim C10. When the query of a listing is not rejected and the page and the limit
  are numbers that give a limit and an offset that are not negative (and within
  \<^verbatim>\<open>bigint\<close>), each of the two listings answers: its \<^verbatim>\<open>data\<close> are the rows left of
  the matching ones, in the order of the listing, after the offset, at most the limit
  of them, and its \<^verbatim>\<open>total\<close> is the number of these rows, not of the matching ones.
  So a page that starts at or after the last matching row is answered with no row and
  the total 0, however many rows match.
\<close>

theorem listing_total_counts_the_page:
  fixes e :: env and d :: db
  assumes "\<not> rejects e 0" and "parseInt_or 1 page = Some p"
  shows "(\<forall>lim. parseInt_or 50 limit = Some lim \<and> 0 \<le> lim \<and> 0 \<le> (p - 1) * lim
                 \<and> lim < 2 ^ 63 \<and> (p - 1) * lim < 2 ^ 63 \<longrightarrow>
            (\<exists>rows. rows = take (nat lim) (drop (nat ((p - 1) * lim))
                              (transfers_ordered (filter cond_t (transfers d))))
               \<and> get_transfers e cond_t page limit d = Inr \<lparr> data = rows, total_rows = length rows \<rparr>
               \<and> length rows = min (nat lim) (length (filter cond_t (transfers d)) - nat ((p - 1) * lim))
               \<and> (int (length (filter cond_t (transfers d))) \<le> (p - 1) * lim \<longrightarrow>
                    get_transfers e cond_t page limit d = Inr \<lparr> data = [], total_rows = 0 \<rparr>)))
       \<and> (\<forall>lim. parseInt_or 100 limit = Some lim \<and> 0 \<le> lim \<and> 0 \<le> (p - 1) * lim
                 \<and> lim < 2 ^ 63 \<and> (p - 1) * lim < 2 ^ 63 \<longrightarrow>
            (\<exists>rows. rows = take (nat lim) (drop (nat ((p - 1) * lim))
                              (map (select_maintenance_row e d)
                                 (maintenance_ordered (CURRENT_DATE e)
                                    (filter cond_m (maintenance_schedules d)))))
               \<and> get_maintenance e cond_m page limit d = Inr \<lparr> data = rows, total_rows = length rows \<rparr>
               \<and> length rows
                   = min (nat lim) (length (filter cond_m (maintenance_schedules d)) - nat ((p - 1) * lim))
               \<and> (int (length (filter cond_m (maintenance_schedules d))) \<le> (p - 1) * lim \<longrightarrow>
                    get_maintenance e cond_m page limit d = Inr \<lparr> data = [], total_rows = 0 \<rparr>)))"
proof (intro conjI allI impI)
  fix lim
  assume h: "parseInt_or 50 limit = Some lim \<and> 0 \<le> lim \<and> 0 \<le> (p - 1) * lim
             \<and> lim < 2 ^ 63 \<and> (p - 1) * lim < 2 ^ 63"
  define rows where
    "rows = take (nat lim) (drop (nat ((p - 1) * lim)) (transfers_ordered (filter cond_t (transfers d))))"
  have h1: "parseInt_or 50 limit = Some lim" and h2: "0 \<le> lim" and h3: "0 \<le> (p - 1) * lim"
   and h4: "lim < 2 ^ 63" and h5: "(p - 1) * lim < 2 ^ 63"
    using h by simp_all
  note page = get_transfers_page [OF assms(1) assms(2) h1 h2 h3 h4 h5 rows_def]
  have empty: "int (length (filter cond_t (transfers d))) \<le> (p - 1) * lim \<longrightarrow>
                 get_transfers e cond_t page limit d = Inr \<lparr> data = [], total_rows = 0 \<rparr>"
  proof
    assume "int (length (filter cond_t (transfers d))) \<le> (p - 1) * lim"
    then have "length (filter cond_t (transfers d)) - nat ((p - 1) * lim) = 0"
      by linarith
    with page(2) have "rows = []" by simp
    with page(1) show "get_transfers e cond_t page limit d = Inr \<lparr> data = [], total_rows = 0 \<rparr>"
      by simp
  qed
  have "rows = take (nat lim) (drop (nat ((p - 1) * lim))
                 (transfers_ordered (filter cond_t (transfers d))))
        \<and> get_transfers e cond_t page limit d = Inr \<lparr> data = rows, total_rows = length rows \<rparr>
        \<and> length rows = min (nat lim) (length (filter cond_t (transfers d)) - nat ((p - 1) * lim))
        \<and> (int (length (filter cond_t (transfers d))) \<le> (p - 1) * lim \<longrightarrow>
             get_transfers e cond_t page limit d = Inr \<lparr> data = [], total_rows = 0 \<rparr>)"
    using rows_def page empty by (intro conjI)
  then show "\<exists>rows. rows = take (nat lim) (drop (nat ((p - 1) * lim))
                              (transfers_ordered (filter cond_t (transfers d))))
               \<and> get_transfers e cond_t page limit d = Inr \<lparr> data = rows, total_rows = length rows \<rparr>
               \<and> length rows = min (nat lim) (length (filter cond_t (transfers d)) - nat ((p - 1) * lim))
               \<and> (int (length (filter cond_t (transfers d))) \<le> (p - 1) * lim \<longrightarrow>
                    get_transfers e cond_t page limit d = Inr \<lparr> data = [], total_rows = 0 \<rparr>)"
    by (rule exI)
next
  fix lim
  assume h: "parseInt_or 100 limit = Some lim \<and> 0 \<le> lim \<and> 0 \<le> (p - 1) * lim
             \<and> lim < 2 ^ 63 \<and> (p - 1) * lim < 2 ^ 63"
  define rows where
    "rows = take (nat lim) (drop (nat ((p - 1) * lim))
              (map (select_maintenance_row e d)
                 (maintenance_ordered (CURRENT_DATE e) (filter cond_m (maintenance_schedules d)))))"
  have h1: "parseInt_or 100 limit = Some lim" and h2: "0 \<le> lim" and h3: "0 \<le> (p - 1) * lim"
   and h4: "lim < 2 ^ 63" and h5: "(p - 1) * lim < 2 ^ 63"
    using h by simp_all
  note page = get_maintenance_page [OF assms(1) assms(2) h1 h2 h3 h4 h5 rows_def]
  have empty: "int (length (filter cond_m (maintenance_schedules d))) \<le> (p - 1) * lim \<longrightarrow>
                 get_maintenance e cond_m page limit d = Inr \<lparr> data = [], total_rows = 0 \<rparr>"
  proof
    assume "int (length (filter cond_m (maintenance_schedules d))) \<le> (p - 1) * lim"
    then have "length (filter cond_m (maintenance_schedules d)) - nat ((p - 1) * lim) = 0"
      by linarith
    with page(2) have "rows = []" by simp
    with page(1) show "get_maintenance e cond_m page limit d = Inr \<lparr> data = [], total_rows = 0 \<rparr>"
      by simp
  qed
  have "rows = take (nat lim) (drop (nat ((p - 1) * lim))
                 (map (select_maintenance_row e d)
                    (maintenance_ordered (CURRENT_DATE e) (filter cond_m (maintenance_schedules d)))))
        \<and> get_maintenance e cond_m page limit d = Inr \<lparr> data = rows, total_rows = length rows \<rparr>
        \<and> length rows
            = min (nat lim) (length (filter cond_m (maintenance_schedules d)) - nat ((p - 1) * lim))
        \<and> (int (length (filter cond_m (maintenance_schedules d))) \<le> (p - 1) * lim \<longrightarrow>
             get_maintenance e cond_m page limit d = Inr \<lparr> data = [], total_rows = 0 \<rparr>)"
    using rows_def page empty by (intro conjI)
  then show "\<exists>rows. rows = take (nat lim) (drop (nat ((p - 1) * lim))
                              (map (select_maintenance_row e d)
                                 (maintenance_ordered (CURRENT_DATE e)
                                    (filter cond_m (maintenance_schedules d)))))
               \<and> get_maintenance e cond_m page limit d = Inr \<lparr> data = rows, total_rows = length rows \<rparr>
               \<and> length rows
                   = min (nat lim) (length (filter cond_m (maintenance_schedules d)) - nat ((p - 1) * lim))
               \<and> (int (length (filter cond_m (maintenance_schedules d))) \<le> (p - 1) * lim \<longrightarrow>
                    get_maintenance e cond_m page limit d = Inr \<lparr> data = [], total_rows = 0 \<rparr>)"
    by (rule exI)
qed

theorem listing_total_counts_the_page_witness:
  "get_transfers calm (\<lambda>t. t_status t = ''Pending'') (Parsed 2) (Parsed 2)
       (db_with [transfer_numbered ''1'', transfer_numbered ''2'', transfer_numbered ''3''])
     = Inr \<lparr> data = [transfer_numbered ''1''], total_rows = 1 \<rparr>
   \<and> get_transfers calm (\<lambda>t. t_status t = ''Pending'') (Parsed 3) (Parsed 2)
       (db_with [transfer_numbered ''1'', transfer_numbered ''2'', transfer_numbered ''3''])
     = Inr \<lparr> data = [], total_rows = 0 \<rparr>
   \<and> length (filter (\<lambda>t. t_status t = ''Pending'')
         (transfers (db_with [transfer_numbered ''1'', transfer_numbered ''2'',
                              transfer_numbered ''3'']))) = 3
   \<and> get_maintenance calm (\<lambda>ms. True) Absent Absent
       ((db_with [])\<lparr> maintenance_schedules :=
                        [schedule_row ''s2'' ''Scheduled'' 200 14, schedule_row ''s1'' ''Scheduled'' 99 14] \<rparr>)
     = Inr \<lparr> data = [\<lparr> schedule = schedule_row ''s1'' ''Scheduled'' 99 14, row_days_until_due = - 1,
                        row_live_status = ''Overdue'', row_log_count = 0 \<rparr>,
                      \<lparr> schedule = schedule_row ''s2'' ''Scheduled'' 200 14, row_days_until_due = 100,
                        row_live_status = ''Scheduled'', row_log_count = 0 \<rparr>],
             total_rows = 2 \<rparr>
   \<and> get_maintenance calm (\<lambda>ms. True) (Parsed 2) (Parsed 1)
       ((db_with [])\<lparr> maintenance_schedules :=
                        [schedule_row ''s2'' ''Scheduled'' 200 14, schedule_row ''s1'' ''Scheduled'' 99 14] \<rparr>)
     = Inr \<lparr> data = [\<lparr> schedule = schedule_row ''s2'' ''Scheduled'' 200 14, row_days_until_due = 100,
                        row_live_status = ''Scheduled'', row_log_count = 0 \<rparr>],
             total_rows = 1 \<rparr>"
proof -
  let ?dt = "db_with [transfer_numbered ''1'', transfer_numbered ''2'', transfer_numbered ''3'']"
  let ?dm = "(db_with [])\<lparr> maintenance_schedules :=
               [schedule_row ''s2'' ''Scheduled'' 200 14, schedule_row ''s1'' ''Scheduled'' 99 14] \<rparr>"
  have r: "\<not> rejects calm 0" by (simp add: calm_def)
  have ord_t: "transfers_ordered (filter (\<lambda>t. t_status t = ''Pending'') (transfers ?dt))
                 = [transfer_numbered ''3'', transfer_numbered ''2'', transfer_numbered ''1'']"
    by (simp add: transfers_ordered_def db_with_def transfer_numbered_def transfer_row_def)
  have ord_m: "map (select_maintenance_row calm ?dm)
                 (maintenance_ordered (CURRENT_DATE calm)
                    [schedule_row ''s2'' ''Scheduled'' 200 14, schedule_row ''s1'' ''Scheduled'' 99 14])
               = [\<lparr> schedule = schedule_row ''s1'' ''Scheduled'' 99 14, row_days_until_due = - 1,
                     row_live_status = ''Overdue'', row_log_count = 0 \<rparr>,
                   \<lparr> schedule = schedule_row ''s2'' ''Scheduled'' 200 14, row_days_until_due = 100,
                     row_live_status = ''Scheduled'', row_log_count = 0 \<rparr>]"
    by (simp add: maintenance_ordered_def urgency_rank_def select_maintenance_row_def
          days_until_due_def live_status_def db_with_def schedule_row_def calm_def)
  have 1: "get_transfers calm (\<lambda>t. t_status t = ''Pending'') (Parsed 2) (Parsed 2) ?dt
             = Inr \<lparr> data = [transfer_numbered ''1''], total_rows = 1 \<rparr>"
    using listing_total_counts_the_page
            [where e = calm and page = "Parsed 2" and p = 2 and limit = "Parsed 2" and d = ?dt
               and cond_t = "\<lambda>t. t_status t = ''Pending''", OF r, THEN conjunct1, rule_format, of 2]
    by (simp add: parseInt_or_def ord_t)
  have 2: "get_transfers calm (\<lambda>t. t_status t = ''Pending'') (Parsed 3) (Parsed 2) ?dt
             = Inr \<lparr> data = [], total_rows = 0 \<rparr>"
    using listing_total_counts_the_page
            [where e = calm and page = "Parsed 3" and p = 3 and limit = "Parsed 2" and d = ?dt
               and cond_t = "\<lambda>t. t_status t = ''Pending''", OF r, THEN conjunct1, rule_format, of 2]
    by (simp add: parseInt_or_def ord_t)
  have 3: "length (filter (\<lambda>t. t_status t = ''Pending'') (transfers ?dt)) = 3"
    by (simp add: db_with_def transfer_numbered_def transfer_row_def)
  have 4: "get_maintenance calm (\<lambda>ms. True) Absent Absent ?dm
             = Inr \<lparr> data = [\<lparr> schedule = schedule_row ''s1'' ''Scheduled'' 99 14, row_days_until_due = - 1,
                                row_live_status = ''Overdue'', row_log_count = 0 \<rparr>,
                              \<lparr> schedule = schedule_row ''s2'' ''Scheduled'' 200 14, row_days_until_due = 100,
                                row_live_status = ''Scheduled'', row_log_count = 0 \<rparr>],
                     total_rows = 2 \<rparr>"
    using listing_total_counts_the_page
            [where e = calm and page = Absent and p = 1 and limit = Absent and d = ?dm
               and cond_m = "\<lambda>ms. True", OF r, THEN conjunct2, rule_format, of 100]
    by (simp add: parseInt_or_def ord_m)
  have 5: "get_maintenance calm (\<lambda>ms. True) (Parsed 2) (Parsed 1) ?dm
             = Inr \<lparr> data = [\<lparr> schedule = schedule_row ''s2'' ''Scheduled'' 200 14, row_days_until_due = 100,
                                row_live_status = ''Scheduled'', row_log_count = 0 \<rparr>],
                     total_rows = 1 \<rparr>"
    using listing_total_counts_the_page
            [where e = calm and page = "Parsed 2" and p = 2 and limit = "Parsed 1" and d = ?dm
               and cond_m = "\<lambda>ms. True", OF r, THEN conjunct2, rule_format, of 1]
    by (simp add: parseInt_or_def ord_m)
  from 1 2 3 4 5 show ?thesis by (intro conjI)
qed


end
